theory Spec2Isabelle
  imports Main "HOL-Library.Char_ord" "HOL-Library.Sublist"
begin

section \<open>Strings and headers\<close>

text \<open>
  Go strings are byte sequences, modelled as \<open>string\<close> (a list of 8-bit characters).
  Runes (code points) are natural numbers.
\<close>

definition isUpperASCII :: "char \<Rightarrow> bool" where
  "isUpperASCII c = (CHR ''A'' \<le> c \<and> c \<le> CHR ''Z'')"

definition isLowerASCII :: "char \<Rightarrow> bool" where
  "isLowerASCII c = (CHR ''a'' \<le> c \<and> c \<le> CHR ''z'')"

definition lowerByte :: "char \<Rightarrow> char" where
  "lowerByte c = (if isUpperASCII c then char_of (of_char c + (32::nat)) else c)"

definition upperByte :: "char \<Rightarrow> char" where
  "upperByte c = (if isLowerASCII c then char_of (of_char c - (32::nat)) else c)"

text \<open>
  \<open>utf8.DecodeRuneInString\<close>, which is also how a \<open>range\<close> loop reads a string: the rune
  at the front of the string and its width in bytes. A first byte announces the length of
  its sequence and the range its second byte must lie in; a byte that starts no well-formed
  sequence of the shortest form is read as \<open>RuneError\<close> with width 1.
\<close>

definition RuneError :: nat where
  "RuneError = 0xFFFD"

definition seqLen :: "nat \<Rightarrow> nat" where
  "seqLen b0 =
     (if b0 < 0x80 then 1
      else if 0xC2 \<le> b0 \<and> b0 \<le> 0xDF then 2
      else if 0xE0 \<le> b0 \<and> b0 \<le> 0xEF then 3
      else if 0xF0 \<le> b0 \<and> b0 \<le> 0xF4 then 4
      else 0)"

definition acceptRange :: "nat \<Rightarrow> nat \<times> nat" where
  "acceptRange b0 =
     (if b0 = 0xE0 then (0xA0, 0xBF)
      else if b0 = 0xED then (0x80, 0x9F)
      else if b0 = 0xF0 then (0x90, 0xBF)
      else if b0 = 0xF4 then (0x80, 0x8F)
      else (0x80, 0xBF))"

definition DecodeRune :: "string \<Rightarrow> nat \<times> nat" where
  "DecodeRune s =
     (case s of
        [] \<Rightarrow> (RuneError, 0)
      | s0 # rest \<Rightarrow>
          let b0 = (of_char s0 :: nat); sz = seqLen b0; (lo, hi) = acceptRange b0 in
          if sz = 1 then (b0, 1)
          else if sz = 0 \<or> length rest < sz - 1 then (RuneError, 1)
          else
            let b1 = (of_char (rest ! 0) :: nat) in
            if b1 < lo \<or> hi < b1 then (RuneError, 1)
            else if sz = 2 then ((b0 mod 32) * 64 + b1 mod 64, 2)
            else
              let b2 = (of_char (rest ! 1) :: nat) in
              if b2 < 0x80 \<or> 0xBF < b2 then (RuneError, 1)
              else if sz = 3 then ((b0 mod 16) * 4096 + (b1 mod 64) * 64 + b2 mod 64, 3)
              else
                let b3 = (of_char (rest ! 2) :: nat) in
                if b3 < 0x80 \<or> 0xBF < b3 then (RuneError, 1)
                else ((b0 mod 8) * 262144 + (b1 mod 64) * 4096 + (b2 mod 64) * 64
                        + b3 mod 64, 4))"

text \<open>
  \<open>utf8.AppendRune\<close>: the UTF-8 bytes of a rune; a surrogate or a value beyond
  \<open>U+10FFFF\<close> is written as \<open>RuneError\<close>.
\<close>

definition EncodeRune :: "nat \<Rightarrow> string" where
  "EncodeRune r =
     (if r \<le> 0x7F then [char_of r]
      else if r \<le> 0x7FF then [char_of (0xC0 + r div 64), char_of (0x80 + r mod 64)]
      else if r > 0x10FFFF \<or> (0xD800 \<le> r \<and> r \<le> 0xDFFF)
        then [CHR 0xEF, CHR 0xBF, CHR 0xBD]
      else if r \<le> 0xFFFF
        then [char_of (0xE0 + r div 4096), char_of (0x80 + r div 64 mod 64),
              char_of (0x80 + r mod 64)]
      else [char_of (0xF0 + r div 262144), char_of (0x80 + r div 4096 mod 64),
            char_of (0x80 + r div 64 mod 64), char_of (0x80 + r mod 64)])"

text \<open>
  \<open>strings.Map(mapping, s)\<close>: the runes of \<open>s\<close>, each mapped and written back in UTF-8.
  (The library copies the input as long as the mapping changes nothing and no byte is
  ill-formed; the copy is what writing the unchanged runes back gives.)
\<close>

function strings_Map :: "(nat \<Rightarrow> nat) \<Rightarrow> string \<Rightarrow> string" where
  "strings_Map mapping [] = []"
| "strings_Map mapping (b # bs) =
     (case DecodeRune (b # bs) of
        (c, width) \<Rightarrow> EncodeRune (mapping c) @ strings_Map mapping (drop width (b # bs)))"
  by pat_completeness auto
termination
  by (relation "measure (\<lambda>(mapping, s). length s)")
    (auto simp: DecodeRune_def Let_def split: if_splits prod.splits)

text \<open>
  \<open>unicode.ToLower\<close>: an ASCII rune is mapped directly; any other rune through the lower
  case entry of the Unicode case table (\<open>unicode.CaseRanges\<close>). The table is a parameter,
  \<open>caseTable\<close>, of everything that lowers a string.

  \<open>strings.ToLower\<close>: a string of ASCII bytes is lowered bytewise (and returned as it is
  when it has no capital); any other string goes through \<open>strings.Map\<close>.
\<close>

definition unicode_ToLower :: "(nat \<Rightarrow> nat) \<Rightarrow> nat \<Rightarrow> nat" where
  "unicode_ToLower caseTable r =
     (if r \<le> 0x7F then (if 0x41 \<le> r \<and> r \<le> 0x5A then r + 32 else r)
      else caseTable r)"

definition isASCII :: "string \<Rightarrow> bool" where
  "isASCII s = list_all (\<lambda>c. (of_char c :: nat) < 0x80) s"

definition ToLower :: "(nat \<Rightarrow> nat) \<Rightarrow> string \<Rightarrow> string" where
  "ToLower caseTable s =
     (if isASCII s
      then (if list_ex isUpperASCII s then map lowerByte s else s)
      else strings_Map (unicode_ToLower caseTable) s)"

text \<open>\<open>strings.Contains(s, substr)\<close>: some suffix of \<open>s\<close> starts with \<open>substr\<close>.\<close>

fun Contains :: "string \<Rightarrow> string \<Rightarrow> bool" where
  "Contains [] substr = (substr = [])"
| "Contains (c # s) substr = (prefix substr (c # s) \<or> Contains s substr)"

text \<open>
  \<open>http.Header\<close> is \<open>map[string][]string\<close>, keyed by canonical header names.
  \<open>Get\<close> and \<open>Set\<close> canonicalise the key they are given
  (\<open>textproto.CanonicalMIMEHeaderKey\<close>): a key with a byte that is not a token byte is
  used as it is; otherwise the first letter and every letter after a dash are upper case
  and the others lower case. \<open>Get\<close> returns the first value stored under the key, and
  the empty string when there is none.
\<close>

type_synonym header = "string \<rightharpoonup> string list"

definition validHeaderFieldByte :: "char \<Rightarrow> bool" where
  "validHeaderFieldByte c =
     (isUpperASCII c \<or> isLowerASCII c \<or> (CHR ''0'' \<le> c \<and> c \<le> CHR ''9'')
      \<or> c \<in> set ''!#$%&*+-.^_|~'' \<or> c = CHR 0x27 \<or> c = CHR 0x60)"

fun canonicalMIMEHeaderKey :: "bool \<Rightarrow> string \<Rightarrow> string" where
  "canonicalMIMEHeaderKey upper [] = []"
| "canonicalMIMEHeaderKey upper (c # cs) =
     (let c' = (if upper \<and> isLowerASCII c then upperByte c
                else if \<not> upper \<and> isUpperASCII c then lowerByte c
                else c)
      in c' # canonicalMIMEHeaderKey (c' = CHR ''-'') cs)"

definition CanonicalMIMEHeaderKey :: "string \<Rightarrow> string" where
  "CanonicalMIMEHeaderKey s =
     (if list_all validHeaderFieldByte s then canonicalMIMEHeaderKey True s else s)"

definition Header_Get :: "header \<Rightarrow> string \<Rightarrow> string" where
  "Header_Get h key =
     (case h (CanonicalMIMEHeaderKey key) of
        None \<Rightarrow> []
      | Some [] \<Rightarrow> []
      | Some (v # vs) \<Rightarrow> v)"

definition Header_Set :: "header \<Rightarrow> string \<Rightarrow> string \<Rightarrow> header" where
  "Header_Set h key v = h(CanonicalMIMEHeaderKey key \<mapsto> [v])"

section \<open>Requests, responses and the upgrade detector\<close>

record url =
  Scheme :: string
  Host :: string
  Path :: string
  RawQuery :: string

record request =
  Method :: string
  URL :: url
  Header :: header
  ReqHost :: string

record response =
  StatusCode :: int
  RespHeader :: header

definition isWebSocketRequest :: "(nat \<Rightarrow> nat) \<Rightarrow> request \<Rightarrow> bool" where
  "isWebSocketRequest caseTable r =
     (ToLower caseTable (Header_Get (Header r) ''Upgrade'') = ''websocket'' \<and>
      Contains (ToLower caseTable (Header_Get (Header r) ''Connection'')) ''upgrade'')"




definition upgradeRequestExample :: request where
  "upgradeRequestExample =
     \<lparr>Method = ''GET'',
      URL = \<lparr>Scheme = [], Host = [], Path = ''/chat'', RawQuery = ''room=1''\<rparr>,
      Header = [''Upgrade'' \<mapsto> [''WebSocket''],
                ''Connection'' \<mapsto> [''keep-alive, Upgrade''],
                ''Sec-Websocket-Version'' \<mapsto> [''13''],
                ''Sec-Websocket-Key'' \<mapsto> [''dGhlIHNhbXBsZSBub25jZQ==''],
                ''Sec-Websocket-Protocol'' \<mapsto> [''chat, superchat'']],
      ReqHost = ''proxy.example''\<rparr>"

section \<open>Connections, the environment and events\<close>

text \<open>
  A connection is one leg of a tunnel together with what the type tests of \<open>pipe\<close>
  see of its dynamic type: whether it is a \<open>*tls.Conn\<close>, and whether it has a
  \<open>CloseWrite\<close> method. What the network, the upstream and the serving environment
  answer to each call is the \<open>world\<close>; a handler is a function from the world and its
  arguments to the sequence of calls it makes on connections and on the response writer.
  Calls to \<open>log.Printf\<close> are left out, and with them the \<open>dir\<close> label of \<open>pipe\<close>.
\<close>

datatype leg = ClientLeg | BackendLeg

record conn =
  connLeg :: leg
  isTLS :: bool
  hasCloseWrite :: bool

datatype error =
    NetError string
  | Errorf_expected_101 int
  | Errorf_missing_accept

record world =
  dialResult :: "error option"
  handshakeResult :: "error option"
  reqWriteResult :: "error option"
  readResponseResult :: "error + response"
  isHijacker :: bool
  hijackError :: "error option"
  clientIsTLS :: bool
  clientHasCloseWrite :: bool
  clientWriteResult :: "error option"

datatype event =
    DialTimeout string string int
  | Handshake conn string bool
  | ReqWrite request conn
  | ReadResponse conn
  | ConnClose conn
  | HttpError string int
  | Hijack
  | ConnWrite conn string
  | SetWriteDeadline conn int
  | CloseWrite conn
  | GoPipe conn conn
  | WgWait
  | IoCopy conn conn int "error option"
  | WgDone
  | WriteHeader int
  | ResponseWrite string
  | ProxyServeHTTP request

definition Second :: int where
  "Second = 1000000000"

definition StatusSwitchingProtocols :: int where
  "StatusSwitchingProtocols = 101"

definition StatusBadGateway :: int where
  "StatusBadGateway = 502"

definition StatusInternalServerError :: int where
  "StatusInternalServerError = 500"

definition CRLF :: string where
  "CRLF = [CHR 0x0D, CHR 0x0A]"

text \<open>
  \<open>url.URL.Hostname\<close> and \<open>url.URL.Port\<close> split the host at its last colon when what
  follows is empty or all digits, and strip the square brackets of an IPv6 literal.
\<close>

fun LastIndexByte :: "string \<Rightarrow> char \<Rightarrow> nat option" where
  "LastIndexByte [] c = None"
| "LastIndexByte (x # xs) c =
     (case LastIndexByte xs c of
        Some i \<Rightarrow> Some (Suc i)
      | None \<Rightarrow> if x = c then Some 0 else None)"

definition validOptionalPort :: "string \<Rightarrow> bool" where
  "validOptionalPort port =
     (case port of
        [] \<Rightarrow> True
      | c # ds \<Rightarrow> c = CHR '':'' \<and> list_all (\<lambda>b. CHR ''0'' \<le> b \<and> b \<le> CHR ''9'') ds)"

definition splitHostPort :: "string \<Rightarrow> string \<times> string" where
  "splitHostPort hostPort =
     (let (host, port) =
            (case LastIndexByte hostPort (CHR '':'') of
               Some colon \<Rightarrow>
                 if validOptionalPort (drop colon hostPort)
                 then (take colon hostPort, drop (colon + 1) hostPort)
                 else (hostPort, [])
             | None \<Rightarrow> (hostPort, []))
      in (if prefix ''['' host \<and> suffix '']'' host
          then take (length host - 2) (drop 1 host) else host,
          port))"

definition Hostname :: "url \<Rightarrow> string" where
  "Hostname u = fst (splitHostPort (Host u))"

definition Port :: "url \<Rightarrow> string" where
  "Port u = snd (splitHostPort (Host u))"

section \<open>The upstream handshake\<close>

text \<open>The address handed to \<open>net.DialTimeout\<close> (the first block of \<open>dialBackendWebSocket\<close>).\<close>

definition dialAddress :: "url \<Rightarrow> string" where
  "dialAddress u =
     (if \<not> Contains (Host u) '':''
      then (if Scheme u = ''wss'' then Host u @ '':443'' else Host u @ '':80'')
      else Host u)"

text \<open>The synthetic upgrade request (the request-building block of \<open>dialBackendWebSocket\<close>).\<close>

definition upgradeRequest :: "url \<Rightarrow> request \<Rightarrow> request" where
  "upgradeRequest u r =
     (let h1 = Header_Set Map.empty ''Connection'' ''Upgrade'';
          h2 = Header_Set h1 ''Upgrade'' ''websocket'';
          h3 = Header_Set h2 ''Sec-WebSocket-Version''
                 (Header_Get (Header r) ''Sec-WebSocket-Version'');
          h4 = Header_Set h3 ''Sec-WebSocket-Key''
                 (Header_Get (Header r) ''Sec-WebSocket-Key'');
          proto = Header_Get (Header r) ''Sec-WebSocket-Protocol'';
          h5 = (if proto \<noteq> [] then Header_Set h4 ''Sec-WebSocket-Protocol'' proto else h4);
          ext = Header_Get (Header r) ''Sec-WebSocket-Extensions'';
          h6 = (if ext \<noteq> [] then Header_Set h5 ''Sec-WebSocket-Extensions'' ext else h5);
          auth = Header_Get (Header r) ''Authorization'';
          h7 = (if auth \<noteq> [] then Header_Set h6 ''Authorization'' auth else h6)
      in \<lparr>Method = ''GET'', URL = u, Header = h7, ReqHost = Host u\<rparr>)"

definition tcpConn :: conn where
  "tcpConn = \<lparr>connLeg = BackendLeg, isTLS = False, hasCloseWrite = True\<rparr>"

definition tlsClient :: "conn \<Rightarrow> conn" where
  "tlsClient c = c\<lparr>isTLS := True, hasCloseWrite := True\<rparr>"

definition dialBackendWebSocket ::
  "world \<Rightarrow> url \<Rightarrow> request \<Rightarrow> event list \<times> (error + conn \<times> response)" where
  "dialBackendWebSocket w u r =
     (let dial = [DialTimeout ''tcp'' (dialAddress u) (10 * Second)] in
      case dialResult w of
        Some err \<Rightarrow> (dial, Inl err)
      | None \<Rightarrow>
          let hs = (if Scheme u = ''wss''
                    then [Handshake (tlsClient tcpConn) (Hostname u) True] else []) in
          case (if Scheme u = ''wss'' then handshakeResult w else None) of
            Some err \<Rightarrow> (dial @ hs @ [ConnClose tcpConn], Inl err)
          | None \<Rightarrow>
              let conn = (if Scheme u = ''wss'' then tlsClient tcpConn else tcpConn);
                  req = upgradeRequest u r;
                  wr = dial @ hs @ [ReqWrite req conn] in
              case reqWriteResult w of
                Some err \<Rightarrow> (wr @ [ConnClose conn], Inl err)
              | None \<Rightarrow>
                  (case readResponseResult w of
                     Inl err \<Rightarrow> (wr @ [ReadResponse conn, ConnClose conn], Inl err)
                   | Inr resp \<Rightarrow>
                       if StatusCode resp \<noteq> StatusSwitchingProtocols
                       then (wr @ [ReadResponse conn, ConnClose conn],
                             Inl (Errorf_expected_101 (StatusCode resp)))
                       else (wr @ [ReadResponse conn], Inr (conn, resp))))"

section \<open>The response to the client\<close>

definition writeSwitchingProtocols ::
  "world \<Rightarrow> conn \<Rightarrow> request \<Rightarrow> response \<Rightarrow> event list \<times> error option" where
  "writeSwitchingProtocols w clientConn clientReq backendResp =
     (let accept = Header_Get (RespHeader backendResp) ''Sec-WebSocket-Accept'' in
      if accept = [] then ([], Some Errorf_missing_accept)
      else
        let resp0 = ''HTTP/1.1 101 Switching Protocols'' @ CRLF @
                    ''Upgrade: websocket'' @ CRLF @
                    ''Connection: Upgrade'' @ CRLF @
                    ''Sec-WebSocket-Accept: '' @ accept @ CRLF;
            proto = Header_Get (Header clientReq) ''Sec-WebSocket-Protocol'';
            backendProto = Header_Get (RespHeader backendResp) ''Sec-WebSocket-Protocol'';
            resp1 = (if proto \<noteq> [] \<and> backendProto \<noteq> [] \<and> Contains proto backendProto
                     then resp0 @ ''Sec-WebSocket-Protocol: '' @ backendProto @ CRLF
                     else resp0);
            resp = resp1 @ CRLF
        in ([ConnWrite clientConn resp], clientWriteResult w))"

section \<open>The tunnel handler and the relay\<close>

text \<open>
  The handler's own sequence of calls. The two copy tasks it starts are recorded as
  \<open>GoPipe\<close> events; what each task does is \<open>pipe\<close>. The deferred closes run when the
  handler returns, the client connection's first.
\<close>

definition backendURL :: "url \<Rightarrow> request \<Rightarrow> url" where
  "backendURL target r =
     \<lparr>Scheme = (if Scheme target = ''https'' then ''wss'' else ''ws''),
      Host = Host target,
      Path = Path (URL r),
      RawQuery = RawQuery (URL r)\<rparr>"

definition handleWebSocket :: "world \<Rightarrow> request \<Rightarrow> url \<Rightarrow> event list" where
  "handleWebSocket w r target =
     (case dialBackendWebSocket w (backendURL target r) r of
        (t, Inl err) \<Rightarrow> t @ [HttpError ''Failed to connect to backend'' StatusBadGateway]
      | (t, Inr (backendConn, backendResp)) \<Rightarrow>
          if \<not> isHijacker w
          then t @ [HttpError ''Hijacking not supported'' StatusInternalServerError,
                    ConnClose backendConn]
          else
            (case hijackError w of
               Some err \<Rightarrow> t @ [Hijack, ConnClose backendConn]
             | None \<Rightarrow>
                 let clientConn = \<lparr>connLeg = ClientLeg, isTLS = clientIsTLS w,
                                    hasCloseWrite = clientHasCloseWrite w\<rparr> in
                 case writeSwitchingProtocols w clientConn r backendResp of
                   (tw, Some err) \<Rightarrow>
                     t @ [Hijack] @ tw @ [ConnClose clientConn, ConnClose backendConn]
                 | (tw, None) \<Rightarrow>
                     t @ [Hijack] @ tw @
                       [GoPipe backendConn clientConn, GoPipe clientConn backendConn, WgWait,
                        ConnClose clientConn, ConnClose backendConn]))"

text \<open>
  One copy task: \<open>io.Copy\<close> returns a byte count and possibly an error (which only the
  log line looks at), then the shutdown sequence runs on the destination at time \<open>now\<close>.
\<close>

definition pipe :: "int \<Rightarrow> conn \<Rightarrow> conn \<Rightarrow> int \<Rightarrow> error option \<Rightarrow> event list" where
  "pipe now dst src n err =
     [IoCopy dst src n err,
      SetWriteDeadline dst (now + 2 * Second),
      ConnWrite dst [CHR 0x88, CHR 0x02, CHR 0x03, CHR 0xE8]]
     @ (if isTLS dst then [ConnClose dst]
        else (if hasCloseWrite dst then [CloseWrite dst] else []) @ [ConnClose dst])
     @ [WgDone]"

text \<open>The handler that \<open>main\<close> registers, with the access gate in front.\<close>

definition handler ::
  "(nat \<Rightarrow> nat) \<Rightarrow> string \<Rightarrow> url \<Rightarrow> world \<Rightarrow> request \<Rightarrow> event list" where
  "handler caseTable verificationHeader target w r =
     (if verificationHeader \<noteq> [] \<and> Header_Get (Header r) verificationHeader = []
      then [WriteHeader StatusBadGateway, ResponseWrite ''Bad Gateway'']
      else if isWebSocketRequest caseTable r then handleWebSocket w r target
      else [ProxyServeHTTP r])"

text \<open>Events that the client can observe or that act on the client's connection.\<close>

fun clientVisible :: "event \<Rightarrow> bool" where
  "clientVisible (HttpError msg code) = True"
| "clientVisible Hijack = True"
| "clientVisible (WriteHeader code) = True"
| "clientVisible (ResponseWrite body) = True"
| "clientVisible (ConnWrite c bs) = (connLeg c = ClientLeg)"
| "clientVisible (ConnClose c) = (connLeg c = ClientLeg)"
| "clientVisible (CloseWrite c) = (connLeg c = ClientLeg)"
| "clientVisible (SetWriteDeadline c t) = (connLeg c = ClientLeg)"
| "clientVisible (GoPipe dst src) = True"
| "clientVisible (IoCopy dst src n err) = True"
| "clientVisible e = False"

section \<open>Example inputs\<close>

definition targetExample :: url where
  "targetExample = \<lparr>Scheme = ''https'', Host = ''backend.example'', Path = [], RawQuery = []\<rparr>"

definition responseExample :: response where
  "responseExample =
     \<lparr>StatusCode = 101,
      RespHeader = [''Upgrade'' \<mapsto> [''websocket''],
                    ''Connection'' \<mapsto> [''Upgrade''],
                    ''Sec-Websocket-Accept'' \<mapsto> [''s3pPLMBiTxaQ9kYGzzhZRbK+xOo=''],
                    ''Sec-Websocket-Protocol'' \<mapsto> [''chat'']]\<rparr>"

definition worldExample :: world where
  "worldExample =
     \<lparr>dialResult = None, handshakeResult = None, reqWriteResult = None,
      readResponseResult = Inr responseExample,
      isHijacker = True, hijackError = None,
      clientIsTLS = False, clientHasCloseWrite = True,
      clientWriteResult = None\<rparr>"

definition clientConnExample :: conn where
  "clientConnExample = \<lparr>connLeg = ClientLeg, isTLS = False, hasCloseWrite = True\<rparr>"

definition worldNotFound :: world where
  "worldNotFound = worldExample\<lparr>readResponseResult := Inr \<lparr>StatusCode = 404, RespHeader = Map.empty\<rparr>\<rparr>"

definition responseNoAccept :: response where
  "responseNoAccept = \<lparr>StatusCode = 101, RespHeader = [''Upgrade'' \<mapsto> [''websocket'']]\<rparr>"

definition worldNoAccept :: world where
  "worldNoAccept = worldExample\<lparr>readResponseResult := Inr responseNoAccept\<rparr>"

text \<open>
  A client that offers the single sub-protocol \<open>superchat\<close>, a target given as an IPv6
  literal without a port, and the answer of the dialer to an address without a port.
\<close>

definition superchatRequest :: request where
  "superchatRequest =
     upgradeRequestExample
       \<lparr>Header := (Header upgradeRequestExample)(''Sec-Websocket-Protocol'' \<mapsto> [''superchat''])\<rparr>"

definition targetIPv6 :: url where
  "targetIPv6 = \<lparr>Scheme = ''http'', Host = ''[::1]'', Path = [], RawQuery = []\<rparr>"

definition worldDialFails :: world where
  "worldDialFails =
     worldExample\<lparr>dialResult :=
       Some (NetError ''dial tcp: address [::1]: missing port in address'')\<rparr>"

text \<open>
  Entries of the Unicode case table: the lower case of \<open>U+212A\<close> (KELVIN SIGN) is \<open>k\<close>
  and that of \<open>U+0130\<close> is \<open>i\<close>; these are the runes beyond ASCII with an ASCII lower
  case. The sample table leaves every other rune as it is, which the examples do not
  depend on. The request carries the KELVIN SIGN, in UTF-8, in its \<open>Upgrade\<close> header.
\<close>

definition caseTableSample :: "nat \<Rightarrow> nat" where
  "caseTableSample r = (if r = 0x212A then 0x6B else if r = 0x130 then 0x69 else r)"


section \<open>The client's sub-protocol list\<close>

text \<open>
  The list of sub-protocols that a \<open>Sec-WebSocket-Protocol\<close> request header offers, in the
  specification's words: the elements of the comma-separated value, blanks around each
  element removed, empty elements dropped. The program has no such function; it is what
  the program's substring test is compared with.
\<close>

definition isOWS :: "char \<Rightarrow> bool" where
  "isOWS c = (c = CHR '' '' \<or> c = CHR 0x09)"

definition trimOWS :: "string \<Rightarrow> string" where
  "trimOWS s = rev (dropWhile isOWS (rev (dropWhile isOWS s)))"

fun splitOn :: "char \<Rightarrow> string \<Rightarrow> string list" where
  "splitOn d [] = [[]]"
| "splitOn d (c # cs) =
     (if c = d then [] # splitOn d cs
      else (case splitOn d cs of [] \<Rightarrow> [[c]] | x # xs \<Rightarrow> (c # x) # xs))"

definition listedProtocols :: "string \<Rightarrow> string list" where
  "listedProtocols v = filter (\<lambda>p. p \<noteq> []) (map trimOWS (splitOn (CHR '','') v))"

section \<open>The close frame\<close>

text \<open>
  A WebSocket close frame in the specification's words: the final-fragment bit with opcode
  8, an unmasked payload of length 2, and the status code in two bytes, high byte first.
\<close>

definition closeFrame :: "nat \<Rightarrow> string" where
  "closeFrame status =
     [char_of (128 + 8 :: nat), char_of (2 :: nat),
      char_of (status div 256), char_of (status mod 256)]"

section \<open>Facts about strings and headers\<close>












lemma DecodeRune_width:
  assumes "DecodeRune (b # bs) = (c, w)"
  shows "w \<le> Suc (length bs)"
  using assms
  by (auto simp: DecodeRune_def Let_def seqLen_def Suc_le_eq split: if_splits prod.splits)













lemma Canonical_Upgrade: "CanonicalMIMEHeaderKey ''Upgrade'' = ''Upgrade''"
  by code_simp

section \<open>Facts about the handshake and the handler\<close>

lemma Canonical_Accept:
  "CanonicalMIMEHeaderKey ''Sec-WebSocket-Accept'' = ''Sec-Websocket-Accept''"
  by code_simp

lemma Canonical_Protocol:
  "CanonicalMIMEHeaderKey ''Sec-WebSocket-Protocol'' = ''Sec-Websocket-Protocol''"
  by code_simp

lemma Canonical_keys:
  "CanonicalMIMEHeaderKey ''Connection'' = ''Connection''"
  "CanonicalMIMEHeaderKey ''Sec-WebSocket-Version'' = ''Sec-Websocket-Version''"
  "CanonicalMIMEHeaderKey ''Sec-WebSocket-Key'' = ''Sec-Websocket-Key''"
  "CanonicalMIMEHeaderKey ''Sec-WebSocket-Extensions'' = ''Sec-Websocket-Extensions''"
  "CanonicalMIMEHeaderKey ''Authorization'' = ''Authorization''"
  by code_simp+

lemma Canonical_x_secret: "CanonicalMIMEHeaderKey ''x-secret'' = ''X-Secret''"
  by code_simp

lemma backendConn_leg:
  "connLeg tcpConn = BackendLeg" "connLeg (tlsClient tcpConn) = BackendLeg"
  by (simp_all add: tcpConn_def tlsClient_def)

lemma dial_success:
  assumes "dialBackendWebSocket w u r = (t, Inr (c, resp))"
  shows "dialResult w = None \<and> (Scheme u = ''wss'' \<longrightarrow> handshakeResult w = None)
         \<and> reqWriteResult w = None \<and> readResponseResult w = Inr resp
         \<and> StatusCode resp = 101
         \<and> c = (if Scheme u = ''wss'' then tlsClient tcpConn else tcpConn)
         \<and> t = DialTimeout ''tcp'' (dialAddress u) (10 * Second)
               # (if Scheme u = ''wss'' then [Handshake (tlsClient tcpConn) (Hostname u) True] else [])
               @ [ReqWrite (upgradeRequest u r) c, ReadResponse c]"
  using assms
  by (auto simp: dialBackendWebSocket_def Let_def StatusSwitchingProtocols_def
           split: option.splits sum.splits if_splits)

lemma dial_not_clientVisible:
  "e \<in> set (fst (dialBackendWebSocket w u r)) \<Longrightarrow> \<not> clientVisible e"
  by (auto simp: dialBackendWebSocket_def Let_def backendConn_leg
           split: option.splits sum.splits if_splits)

lemma handle_dial_failed:
  assumes "dialBackendWebSocket w (backendURL target r) r = (t, Inl err)"
  shows "handleWebSocket w r target = t @ [HttpError ''Failed to connect to backend'' 502]"
  using assms by (simp add: handleWebSocket_def StatusBadGateway_def)




lemma protocol_line_substring:
  assumes "Header_Get (RespHeader backendResp) ''Sec-WebSocket-Accept'' \<noteq> []"
  shows "fst (writeSwitchingProtocols w clientConn clientReq backendResp)
         = [ConnWrite clientConn
              (''HTTP/1.1 101 Switching Protocols'' @ CRLF @
               ''Upgrade: websocket'' @ CRLF @
               ''Connection: Upgrade'' @ CRLF @
               ''Sec-WebSocket-Accept: ''
                 @ Header_Get (RespHeader backendResp) ''Sec-WebSocket-Accept'' @ CRLF @
               (if Header_Get (Header clientReq) ''Sec-WebSocket-Protocol'' \<noteq> []
                   \<and> Header_Get (RespHeader backendResp) ''Sec-WebSocket-Protocol'' \<noteq> []
                   \<and> Contains (Header_Get (Header clientReq) ''Sec-WebSocket-Protocol'')
                        (Header_Get (RespHeader backendResp) ''Sec-WebSocket-Protocol'')
                then ''Sec-WebSocket-Protocol: ''
                       @ Header_Get (RespHeader backendResp) ''Sec-WebSocket-Protocol'' @ CRLF
                else []) @ CRLF)]"
  using assms by (simp add: writeSwitchingProtocols_def Let_def)

lemma upgradeRequest_fields:
  "Method (upgradeRequest u r) = ''GET''"
  "URL (upgradeRequest u r) = u"
  "ReqHost (upgradeRequest u r) = Host u"
  "Header_Get (Header (upgradeRequest u r)) ''Connection'' = ''Upgrade''"
  "Header_Get (Header (upgradeRequest u r)) ''Upgrade'' = ''websocket''"
  "Header_Get (Header (upgradeRequest u r)) ''Sec-WebSocket-Version''
     = Header_Get (Header r) ''Sec-WebSocket-Version''"
  "Header_Get (Header (upgradeRequest u r)) ''Sec-WebSocket-Key''
     = Header_Get (Header r) ''Sec-WebSocket-Key''"
  "Header_Get (Header (upgradeRequest u r)) ''Sec-WebSocket-Protocol''
     = Header_Get (Header r) ''Sec-WebSocket-Protocol''"
  "Header_Get (Header (upgradeRequest u r)) ''Sec-WebSocket-Extensions''
     = Header_Get (Header r) ''Sec-WebSocket-Extensions''"
  "Header_Get (Header (upgradeRequest u r)) ''Authorization''
     = Header_Get (Header r) ''Authorization''"
  by (simp_all add: upgradeRequest_def Let_def Header_Get_def Header_Set_def
        Canonical_keys Canonical_Upgrade Canonical_Protocol)

lemma upgradeRequest_optional:
  "(Header (upgradeRequest u r) ''Sec-Websocket-Protocol'' \<noteq> None)
     = (Header_Get (Header r) ''Sec-WebSocket-Protocol'' \<noteq> [])"
  "(Header (upgradeRequest u r) ''Sec-Websocket-Extensions'' \<noteq> None)
     = (Header_Get (Header r) ''Sec-WebSocket-Extensions'' \<noteq> [])"
  "(Header (upgradeRequest u r) ''Authorization'' \<noteq> None)
     = (Header_Get (Header r) ''Authorization'' \<noteq> [])"
  by (simp_all add: upgradeRequest_def Let_def Header_Set_def
        Canonical_keys Canonical_Upgrade Canonical_Protocol)

lemma backendURL_fields:
  "Path (backendURL target r) = Path (URL r)"
  "RawQuery (backendURL target r) = RawQuery (URL r)"
  "Host (backendURL target r) = Host target"
  by (simp_all add: backendURL_def)

lemma dialAddress_default:
  assumes "\<not> Contains (Host target) '':''"
  shows "dialAddress (backendURL target r)
           = Host target @ (if Scheme target = ''https'' then '':443'' else '':80'')"
  using assms by (simp add: dialAddress_def backendURL_def)


lemma notFound_dial:
  "dialResult worldNotFound = None" "handshakeResult worldNotFound = None"
  "reqWriteResult worldNotFound = None"
  "readResponseResult worldNotFound = Inr \<lparr>StatusCode = 404, RespHeader = Map.empty\<rparr>"
  by (simp_all add: worldNotFound_def worldExample_def)

lemma response_headers:
  "Header_Get (RespHeader responseExample) ''Sec-WebSocket-Accept'' = ''s3pPLMBiTxaQ9kYGzzhZRbK+xOo=''"
  "Header_Get (RespHeader responseExample) ''Sec-WebSocket-Protocol'' = ''chat''"
  by (simp_all add: Header_Get_def responseExample_def Canonical_Accept Canonical_Protocol)

lemma request_protocol:
  "Header_Get (Header upgradeRequestExample) ''Sec-WebSocket-Protocol'' = ''chat, superchat''"
  by (simp add: Header_Get_def upgradeRequestExample_def Canonical_Protocol)

section \<open>Handshake before hijack\<close>



text \<open>
  Claim C2. When the upstream answers the handshake with a status other than 101, the
  handshake fails with an error that carries that status, the upstream connection is
  closed, the caller gets the error response with status 502, and the client connection
  is not hijacked.
\<close>

theorem rejected_handshake_is_bad_gateway:
  assumes "dialResult w = None"
    and "Scheme target = ''https'' \<longrightarrow> handshakeResult w = None"
    and "reqWriteResult w = None"
    and "readResponseResult w = Inr resp"
    and "StatusCode resp \<noteq> 101"
  shows "\<exists>t c. dialBackendWebSocket w (backendURL target r) r
                 = (t @ [ReadResponse c, ConnClose c], Inl (Errorf_expected_101 (StatusCode resp)))
         \<and> c = (if Scheme target = ''https'' then tlsClient tcpConn else tcpConn)
         \<and> handleWebSocket w r target
             = t @ [ReadResponse c, ConnClose c,
                    HttpError ''Failed to connect to backend'' 502]
         \<and> Hijack \<notin> set (handleWebSocket w r target)
         \<and> (\<forall>e \<in> set (t @ [ReadResponse c, ConnClose c]). \<not> clientVisible e)"
proof -
  define c where "c = (if Scheme target = ''https'' then tlsClient tcpConn else tcpConn)"
  define t where "t = DialTimeout ''tcp'' (dialAddress (backendURL target r)) (10 * Second)
      # (if Scheme target = ''https''
         then [Handshake (tlsClient tcpConn) (Hostname (backendURL target r)) True] else [])
      @ [ReqWrite (upgradeRequest (backendURL target r) r) c]"
  have wss: "(Scheme (backendURL target r) = ''wss'') = (Scheme target = ''https'')"
    by (simp add: backendURL_def)
  have d: "dialBackendWebSocket w (backendURL target r) r
             = (t @ [ReadResponse c, ConnClose c], Inl (Errorf_expected_101 (StatusCode resp)))"
    using assms
    by (simp add: dialBackendWebSocket_def Let_def wss StatusSwitchingProtocols_def t_def c_def)
  have quiet: "\<forall>e \<in> set (t @ [ReadResponse c, ConnClose c]). \<not> clientVisible e"
    using dial_not_clientVisible [of _ w "backendURL target r" r] d by simp
  then have "Hijack \<notin> set (t @ [ReadResponse c, ConnClose c])"
    by auto
  with handle_dial_failed [OF d] d quiet c_def show ?thesis
    by auto
qed

theorem rejected_handshake_is_bad_gateway_witness:
  "\<exists>t c. dialBackendWebSocket worldNotFound (backendURL targetExample upgradeRequestExample)
            upgradeRequestExample
          = (t @ [ReadResponse c, ConnClose c], Inl (Errorf_expected_101 404))
        \<and> handleWebSocket worldNotFound upgradeRequestExample targetExample
          = t @ [ReadResponse c, ConnClose c, HttpError ''Failed to connect to backend'' 502]
        \<and> Hijack \<notin> set (handleWebSocket worldNotFound upgradeRequestExample targetExample)"
proof -
  have st: "StatusCode \<lparr>StatusCode = 404, RespHeader = Map.empty\<rparr> \<noteq> 101"
    by simp
  from rejected_handshake_is_bad_gateway
    [of worldNotFound targetExample "\<lparr>StatusCode = 404, RespHeader = Map.empty\<rparr>"
        upgradeRequestExample,
     OF notFound_dial(1) _ notFound_dial(3) notFound_dial(4) st]
  show ?thesis
    by (simp add: notFound_dial(2)) blast
qed

section \<open>The upgrade detector\<close>




section \<open>The synthesized response\<close>

text \<open>
  Claim C4. The claim: the response carries a \<open>Sec-WebSocket-Protocol\<close> line exactly when
  the client offered a list of sub-protocols and the upstream's value is one of the list.
  The program tests whether the upstream's value is a substring of the client's header
  value. For a client that offers \<open>superchat\<close> alone and an upstream that answers
  \<open>chat\<close>, the value is not in the client's list and the program writes the line
  \<open>Sec-WebSocket-Protocol: chat\<close> all the same.
\<close>

theorem unlisted_subprotocol_echoed:
  "Header_Get (Header superchatRequest) ''Sec-WebSocket-Protocol'' = ''superchat''
   \<and> Header_Get (RespHeader responseExample) ''Sec-WebSocket-Protocol'' = ''chat''
   \<and> ''chat'' \<notin> set (listedProtocols ''superchat'')
   \<and> fst (writeSwitchingProtocols worldExample clientConnExample superchatRequest
             responseExample)
       = [ConnWrite clientConnExample
            (''HTTP/1.1 101 Switching Protocols'' @ [CHR 0x0D, CHR 0x0A] @
             ''Upgrade: websocket'' @ [CHR 0x0D, CHR 0x0A] @
             ''Connection: Upgrade'' @ [CHR 0x0D, CHR 0x0A] @
             ''Sec-WebSocket-Accept: s3pPLMBiTxaQ9kYGzzhZRbK+xOo='' @ [CHR 0x0D, CHR 0x0A] @
             ''Sec-WebSocket-Protocol: chat'' @ [CHR 0x0D, CHR 0x0A] @
             [CHR 0x0D, CHR 0x0A])]"
proof -
  have p: "Header_Get (Header superchatRequest) ''Sec-WebSocket-Protocol'' = ''superchat''"
    by (simp add: Header_Get_def superchatRequest_def Canonical_Protocol)
  have l: "''chat'' \<notin> set (listedProtocols ''superchat'')"
    by code_simp
  have c: "Contains ''superchat'' ''chat''"
    by simp
  from p l c response_headers show ?thesis
    by (simp add: writeSwitchingProtocols_def Let_def CRLF_def)
qed

text \<open>
  Claim C5. When the upstream's 101 response has no \<open>Sec-WebSocket-Accept\<close> header, the
  response writer fails with the missing-accept error and writes nothing; the handler,
  which has hijacked the client connection by then, starts no copy task and closes the
  client connection and the upstream connection.
\<close>

theorem missing_accept_aborts_tunnel:
  assumes "dialBackendWebSocket w (backendURL target r) r = (t, Inr (backendConn, backendResp))"
    and "Header_Get (RespHeader backendResp) ''Sec-WebSocket-Accept'' = []"
    and "isHijacker w"
    and "hijackError w = None"
    and "clientConn = \<lparr>connLeg = ClientLeg, isTLS = clientIsTLS w,
                        hasCloseWrite = clientHasCloseWrite w\<rparr>"
  shows "writeSwitchingProtocols w clientConn r backendResp = ([], Some Errorf_missing_accept)
         \<and> handleWebSocket w r target
             = t @ [Hijack, ConnClose clientConn, ConnClose backendConn]
         \<and> (\<forall>e \<in> set (handleWebSocket w r target).
               (\<forall>c bs. e \<noteq> ConnWrite c bs) \<and> (\<forall>dst src. e \<noteq> GoPipe dst src))"
proof -
  have wr: "writeSwitchingProtocols w clientConn r backendResp = ([], Some Errorf_missing_accept)"
    using assms(2) by (simp add: writeSwitchingProtocols_def)
  have tr: "handleWebSocket w r target = t @ [Hijack, ConnClose clientConn, ConnClose backendConn]"
    using assms(1,3,4) wr unfolding assms(5)
    by (simp add: handleWebSocket_def Let_def)
  from dial_success [OF assms(1)]
  have "\<forall>e \<in> set t. (\<forall>c bs. e \<noteq> ConnWrite c bs) \<and> (\<forall>dst src. e \<noteq> GoPipe dst src)"
    by auto
  with wr tr show ?thesis
    by auto
qed

theorem missing_accept_aborts_tunnel_witness:
  "\<exists>t. dialBackendWebSocket worldNoAccept (backendURL targetExample upgradeRequestExample)
          upgradeRequestExample = (t, Inr (tlsClient tcpConn, responseNoAccept))
       \<and> Header_Get (RespHeader responseNoAccept) ''Sec-WebSocket-Accept'' = []
       \<and> writeSwitchingProtocols worldNoAccept clientConnExample upgradeRequestExample
            responseNoAccept = ([], Some Errorf_missing_accept)
       \<and> handleWebSocket worldNoAccept upgradeRequestExample targetExample
            = t @ [Hijack, ConnClose clientConnExample, ConnClose (tlsClient tcpConn)]"
proof -
  have w: "dialResult worldNoAccept = None" "handshakeResult worldNoAccept = None"
    "reqWriteResult worldNoAccept = None"
    "readResponseResult worldNoAccept = Inr responseNoAccept"
    "isHijacker worldNoAccept" "hijackError worldNoAccept = None"
    "clientIsTLS worldNoAccept = False" "clientHasCloseWrite worldNoAccept = True"
    by (simp_all add: worldNoAccept_def worldExample_def)
  have "\<exists>t. dialBackendWebSocket worldNoAccept
            (backendURL targetExample upgradeRequestExample) upgradeRequestExample
          = (t, Inr (tlsClient tcpConn, responseNoAccept))"
    by (simp add: dialBackendWebSocket_def Let_def w StatusSwitchingProtocols_def
          backendURL_def targetExample_def responseNoAccept_def)
  then obtain t where d: "dialBackendWebSocket worldNoAccept
            (backendURL targetExample upgradeRequestExample) upgradeRequestExample
          = (t, Inr (tlsClient tcpConn, responseNoAccept))"
    by blast
  have a: "Header_Get (RespHeader responseNoAccept) ''Sec-WebSocket-Accept'' = []"
    by (simp add: Header_Get_def responseNoAccept_def Canonical_Accept)
  have c: "clientConnExample = \<lparr>connLeg = ClientLeg, isTLS = clientIsTLS worldNoAccept,
                        hasCloseWrite = clientHasCloseWrite worldNoAccept\<rparr>"
    by (simp add: clientConnExample_def w)
  from missing_accept_aborts_tunnel [OF d a w(5) w(6) c] d a show ?thesis
    by blast
qed

text \<open>
  Claim C6. When the upstream's response carries an accept token, the bytes written to the
  hijacked client connection are the status line, \<open>Upgrade: websocket\<close>,
  \<open>Connection: Upgrade\<close>, \<open>Sec-WebSocket-Accept\<close> with the token, possibly the
  \<open>Sec-WebSocket-Protocol\<close> line with the upstream's value, and an empty line, each
  ended by carriage return and line feed.
\<close>

theorem switching_protocols_wire_format:
  assumes "Header_Get (RespHeader backendResp) ''Sec-WebSocket-Accept'' = token"
    and "token \<noteq> []"
  shows "\<exists>opt. fst (writeSwitchingProtocols w clientConn clientReq backendResp)
                 = [ConnWrite clientConn
                      (''HTTP/1.1 101 Switching Protocols'' @ [CHR 0x0D, CHR 0x0A] @
                       ''Upgrade: websocket'' @ [CHR 0x0D, CHR 0x0A] @
                       ''Connection: Upgrade'' @ [CHR 0x0D, CHR 0x0A] @
                       ''Sec-WebSocket-Accept: '' @ token @ [CHR 0x0D, CHR 0x0A] @
                       opt @ [CHR 0x0D, CHR 0x0A])]
             \<and> (opt = [] \<or>
                  opt = ''Sec-WebSocket-Protocol: ''
                          @ Header_Get (RespHeader backendResp) ''Sec-WebSocket-Protocol''
                          @ [CHR 0x0D, CHR 0x0A])"
proof (cases "Header_Get (Header clientReq) ''Sec-WebSocket-Protocol'' \<noteq> []
              \<and> Header_Get (RespHeader backendResp) ''Sec-WebSocket-Protocol'' \<noteq> []
              \<and> Contains (Header_Get (Header clientReq) ''Sec-WebSocket-Protocol'')
                   (Header_Get (RespHeader backendResp) ''Sec-WebSocket-Protocol'')")
  case True
  with assms have "fst (writeSwitchingProtocols w clientConn clientReq backendResp)
                 = [ConnWrite clientConn
                      (''HTTP/1.1 101 Switching Protocols'' @ [CHR 0x0D, CHR 0x0A] @
                       ''Upgrade: websocket'' @ [CHR 0x0D, CHR 0x0A] @
                       ''Connection: Upgrade'' @ [CHR 0x0D, CHR 0x0A] @
                       ''Sec-WebSocket-Accept: '' @ token @ [CHR 0x0D, CHR 0x0A] @
                       (''Sec-WebSocket-Protocol: ''
                          @ Header_Get (RespHeader backendResp) ''Sec-WebSocket-Protocol''
                          @ [CHR 0x0D, CHR 0x0A]) @ [CHR 0x0D, CHR 0x0A])]"
    by (simp add: writeSwitchingProtocols_def Let_def CRLF_def)
  then show ?thesis
    by blast
next
  case False
  with assms have "fst (writeSwitchingProtocols w clientConn clientReq backendResp)
                 = [ConnWrite clientConn
                      (''HTTP/1.1 101 Switching Protocols'' @ [CHR 0x0D, CHR 0x0A] @
                       ''Upgrade: websocket'' @ [CHR 0x0D, CHR 0x0A] @
                       ''Connection: Upgrade'' @ [CHR 0x0D, CHR 0x0A] @
                       ''Sec-WebSocket-Accept: '' @ token @ [CHR 0x0D, CHR 0x0A] @
                       [] @ [CHR 0x0D, CHR 0x0A])]"
    by (auto simp: writeSwitchingProtocols_def Let_def CRLF_def)
  then show ?thesis
    by blast
qed

theorem switching_protocols_wire_format_witness:
  "Header_Get (RespHeader responseExample) ''Sec-WebSocket-Accept''
     = ''s3pPLMBiTxaQ9kYGzzhZRbK+xOo='' \<and>
   fst (writeSwitchingProtocols worldExample clientConnExample upgradeRequestExample
          responseExample)
     = [ConnWrite clientConnExample
          (''HTTP/1.1 101 Switching Protocols'' @ [CHR 0x0D, CHR 0x0A] @
           ''Upgrade: websocket'' @ [CHR 0x0D, CHR 0x0A] @
           ''Connection: Upgrade'' @ [CHR 0x0D, CHR 0x0A] @
           ''Sec-WebSocket-Accept: s3pPLMBiTxaQ9kYGzzhZRbK+xOo='' @ [CHR 0x0D, CHR 0x0A] @
           ''Sec-WebSocket-Protocol: chat'' @ [CHR 0x0D, CHR 0x0A] @
           [CHR 0x0D, CHR 0x0A])]"
proof -
  have ne: "''s3pPLMBiTxaQ9kYGzzhZRbK+xOo='' \<noteq> []"
    by simp
  have w: "fst (writeSwitchingProtocols worldExample clientConnExample upgradeRequestExample
          responseExample) \<noteq> [ConnWrite clientConnExample
          (''HTTP/1.1 101 Switching Protocols'' @ [CHR 0x0D, CHR 0x0A] @
           ''Upgrade: websocket'' @ [CHR 0x0D, CHR 0x0A] @
           ''Connection: Upgrade'' @ [CHR 0x0D, CHR 0x0A] @
           ''Sec-WebSocket-Accept: s3pPLMBiTxaQ9kYGzzhZRbK+xOo='' @ [CHR 0x0D, CHR 0x0A] @
           [] @ [CHR 0x0D, CHR 0x0A])]"
    by (simp add: writeSwitchingProtocols_def Let_def response_headers request_protocol CRLF_def)
  from switching_protocols_wire_format
    [OF response_headers(1) ne, of worldExample clientConnExample upgradeRequestExample]
    w response_headers
  show ?thesis
    by auto
qed

section \<open>The shutdown sequence of a copy task\<close>

text \<open>
  Claim C7. Whatever \<open>io.Copy\<close> returned, a copy task then sets a write deadline two
  seconds ahead on its destination, writes the four bytes \<open>88 02 03 E8\<close> to it (the
  close frame with status 1000), and closes it: a TLS destination by \<open>Close\<close> alone;
  any other destination by \<open>CloseWrite\<close> when it has that method, followed by
  \<open>Close\<close>. The sequence does not depend on how the copy ended.
\<close>

theorem pipe_shutdown_sequence:
  "pipe now dst src n err =
     [IoCopy dst src n err,
      SetWriteDeadline dst (now + 2000000000),
      ConnWrite dst [CHR 0x88, CHR 0x02, CHR 0x03, CHR 0xE8]]
     @ (if isTLS dst then [ConnClose dst]
        else if hasCloseWrite dst then [CloseWrite dst, ConnClose dst]
        else [ConnClose dst])
     @ [WgDone]
   \<and> [CHR 0x88, CHR 0x02, CHR 0x03, CHR 0xE8] = closeFrame 1000
   \<and> tl (pipe now dst src n err) = tl (pipe now dst src n' err')"
proof -
  have frame: "[CHR 0x88, CHR 0x02, CHR 0x03, CHR 0xE8] = closeFrame 1000"
    by code_simp
  have seq: "pipe now dst src k e =
     [IoCopy dst src k e,
      SetWriteDeadline dst (now + 2000000000),
      ConnWrite dst [CHR 0x88, CHR 0x02, CHR 0x03, CHR 0xE8]]
     @ (if isTLS dst then [ConnClose dst]
        else if hasCloseWrite dst then [CloseWrite dst, ConnClose dst]
        else [ConnClose dst])
     @ [WgDone]" for k e
    by (simp add: pipe_def Second_def)
  have "tl (pipe now dst src n err) = tl (pipe now dst src n' err')"
    by (simp only: seq append_Cons list.sel)
  with frame seq [of n err] show ?thesis
    by (simp only: simp_thms)
qed

theorem pipe_shutdown_sequence_witness:
  "pipe 5 (tlsClient tcpConn) clientConnExample 42 None =
     [IoCopy (tlsClient tcpConn) clientConnExample 42 None,
      SetWriteDeadline (tlsClient tcpConn) 2000000005,
      ConnWrite (tlsClient tcpConn) [CHR 0x88, CHR 0x02, CHR 0x03, CHR 0xE8],
      ConnClose (tlsClient tcpConn), WgDone]
   \<and> pipe 5 clientConnExample tcpConn 7 (Some (NetError ''use of closed network connection'')) =
     [IoCopy clientConnExample tcpConn 7 (Some (NetError ''use of closed network connection'')),
      SetWriteDeadline clientConnExample 2000000005,
      ConnWrite clientConnExample [CHR 0x88, CHR 0x02, CHR 0x03, CHR 0xE8],
      CloseWrite clientConnExample, ConnClose clientConnExample, WgDone]"
  using pipe_shutdown_sequence [of 5 "tlsClient tcpConn" clientConnExample 42 None]
    pipe_shutdown_sequence [of 5 clientConnExample tcpConn 7
      "Some (NetError ''use of closed network connection'')"]
  by (simp add: tlsClient_def tcpConn_def clientConnExample_def)

section \<open>The synthetic upstream request\<close>

text \<open>
  Claim C8. The claim: the synthetic request is a GET for the original path and query with
  the upgrade headers and the forwarded WebSocket headers, and the dialed address gets
  port 80 (plain) or 443 (TLS) when the configured target names no port. The request is
  built as claimed (\<open>upgradeRequest_fields\<close>, \<open>upgradeRequest_optional\<close>,
  \<open>backendURL_fields\<close>), and the port is added when the target's host has no colon
  (\<open>dialAddress_default\<close>). A target given as an IPv6 literal, \<open>http://[::1]\<close>, names
  no port and has colons: the program dials \<open>[::1]\<close> with no port added.
\<close>

theorem ipv6_target_dialed_without_port:
  "Port targetIPv6 = []
   \<and> Hostname targetIPv6 = ''::1''
   \<and> dialAddress (backendURL targetIPv6 upgradeRequestExample) = ''[::1]''
   \<and> handleWebSocket worldDialFails upgradeRequestExample targetIPv6
       = [DialTimeout ''tcp'' ''[::1]'' 10000000000,
          HttpError ''Failed to connect to backend'' 502]"
proof -
  have p: "splitHostPort ''[::1]'' = (''::1'', [])"
    by code_simp
  have a: "dialAddress (backendURL targetIPv6 upgradeRequestExample) = ''[::1]''"
    by (simp add: dialAddress_def backendURL_def targetIPv6_def)
  have d: "dialResult worldDialFails
             = Some (NetError ''dial tcp: address [::1]: missing port in address'')"
    by (simp add: worldDialFails_def)
  from p a d show ?thesis
    by (simp add: Port_def Hostname_def targetIPv6_def handleWebSocket_def
          dialBackendWebSocket_def Let_def Second_def StatusBadGateway_def)
qed

section \<open>The access gate\<close>

text \<open>
  Claim C10. With a verification header name configured, a request whose value for that
  header is empty or absent is answered with status 502 and the body \<open>Bad Gateway\<close>,
  and nothing else happens; a request with any non-empty value is handled as if there
  were no gate, by upgrade detection and then the tunnel or the proxy. The value is looked
  at for emptiness only.
\<close>

theorem verification_gate:
  assumes "verificationHeader \<noteq> []"
  shows "(Header_Get (Header r) verificationHeader = [] \<longrightarrow>
            handler caseTable verificationHeader target w r
              = [WriteHeader 502, ResponseWrite ''Bad Gateway''])
       \<and> (Header_Get (Header r) verificationHeader \<noteq> [] \<longrightarrow>
            handler caseTable verificationHeader target w r
              = (if isWebSocketRequest caseTable r then handleWebSocket w r target
                 else [ProxyServeHTTP r]))"
  using assms by (simp add: handler_def StatusBadGateway_def)

theorem verification_gate_witness:
  "''x-secret'' \<noteq> []
   \<and> Header_Get (Header upgradeRequestExample) ''x-secret'' = []
   \<and> handler caseTableSample ''x-secret'' targetExample worldExample upgradeRequestExample
       = [WriteHeader 502, ResponseWrite ''Bad Gateway'']
   \<and> Header_Get (Header (upgradeRequestExample
        \<lparr>Header := (Header upgradeRequestExample)(''X-Secret'' \<mapsto> [''anything''])\<rparr>)) ''x-secret''
       = ''anything''
   \<and> handler caseTableSample ''x-secret'' targetExample worldExample
        (upgradeRequestExample
           \<lparr>Header := (Header upgradeRequestExample)(''X-Secret'' \<mapsto> [''anything''])\<rparr>)
       = handleWebSocket worldExample
           (upgradeRequestExample
              \<lparr>Header := (Header upgradeRequestExample)(''X-Secret'' \<mapsto> [''anything''])\<rparr>)
           targetExample"
proof -
  let ?r = "upgradeRequestExample
              \<lparr>Header := (Header upgradeRequestExample)(''X-Secret'' \<mapsto> [''anything''])\<rparr>"
  have ne: "''x-secret'' \<noteq> []"
    by simp
  have absent: "Header_Get (Header upgradeRequestExample) ''x-secret'' = []"
    by (simp add: Header_Get_def Canonical_x_secret upgradeRequestExample_def)
  have present: "Header_Get (Header ?r) ''x-secret'' = ''anything''"
    by (simp add: Header_Get_def Canonical_x_secret)
  have ws: "isWebSocketRequest caseTableSample ?r"
    by code_simp
  from verification_gate [OF ne, of upgradeRequestExample caseTableSample targetExample worldExample]
    verification_gate [OF ne, of ?r caseTableSample targetExample worldExample]
    absent present ws
  show ?thesis
    by simp
qed

end
